theory Spec2Isabelle
  imports Main "HOL-Library.AList" "HOL-Library.Char_ord" "HOL-Library.List_Lexorder"
    "HOL-Library.Multiset"
begin

section \<open>The models of external/models.py\<close>

text \<open>
  The module declares three Django models with behaviour (Contact, Reference, Vendor) and a
  join model (AuthorDetails). Each model is a record of its declared fields. A nullable
  field (\<open>null=True\<close>) is an \<open>option\<close>; the primary key \<open>id\<close>, which Django adds to every
  model, is \<open>None\<close> until the persistence layer assigns it. Strings are byte strings, dates
  are day numbers.
\<close>

type_synonym date = int

subsection \<open>Python's string formatting\<close>

text \<open>
  \<open>'%s' % x\<close> renders \<open>x\<close> with \<open>str\<close>: a string as itself, an integer in decimal with a
  leading minus sign when negative, and \<open>None\<close> as the four characters \<open>None\<close>.
\<close>

fun str_nat :: "nat \<Rightarrow> string" where
  "str_nat n =
     (if n < 10 then [char_of (48 + n)]
      else str_nat (n div 10) @ [char_of (48 + n mod 10)])"

declare str_nat.simps [simp del]

definition str_int :: "int \<Rightarrow> string" where
  "str_int i = (if i < 0 then CHR ''-'' # str_nat (nat (- i)) else str_nat (nat i))"

definition format_str :: "string option \<Rightarrow> string" where
  "format_str v = (case v of None \<Rightarrow> ''None'' | Some s \<Rightarrow> s)"

definition format_int :: "int option \<Rightarrow> string" where
  "format_int v = (case v of None \<Rightarrow> ''None'' | Some n \<Rightarrow> str_int n)"

text \<open>The value of a decimal numeral, used to state what \<open>str_int\<close> renders.\<close>

definition digit_value :: "char \<Rightarrow> nat" where
  "digit_value c = of_char c - 48"

definition decimal_nat :: "string \<Rightarrow> nat" where
  "decimal_nat s = foldl (\<lambda>a c. 10 * a + digit_value c) 0 s"

definition decimal_int :: "string \<Rightarrow> int" where
  "decimal_int s =
     (case s of
        [] \<Rightarrow> 0
      | c # cs \<Rightarrow> if c = CHR ''-'' then - int (decimal_nat cs) else int (decimal_nat s))"

subsection \<open>Slug derivation\<close>

definition is_upper :: "char \<Rightarrow> bool" where
  "is_upper c = (65 \<le> (of_char c :: nat) \<and> (of_char c :: nat) \<le> 90)"

definition is_lower :: "char \<Rightarrow> bool" where
  "is_lower c = (97 \<le> (of_char c :: nat) \<and> (of_char c :: nat) \<le> 122)"

definition is_digit :: "char \<Rightarrow> bool" where
  "is_digit c = (48 \<le> (of_char c :: nat) \<and> (of_char c :: nat) \<le> 57)"

definition is_alnum :: "char \<Rightarrow> bool" where
  "is_alnum c = (is_upper c \<or> is_lower c \<or> is_digit c)"

definition lower :: "char \<Rightarrow> char" where
  "lower c = (if is_upper c then char_of ((of_char c :: nat) + 32) else c)"

definition is_ascii :: "char \<Rightarrow> bool" where
  "is_ascii c = ((of_char c :: nat) < 128)"

definition is_space :: "char \<Rightarrow> bool" where
  "is_space c = ((9 \<le> (of_char c :: nat) \<and> (of_char c :: nat) \<le> 13) \<or> (of_char c :: nat) = 32)"

definition is_word :: "char \<Rightarrow> bool" where
  "is_word c = (is_alnum c \<or> c = CHR ''_'')"

text \<open>
  \<open>slugify\<close> is imported from \<open>django.template.defaultfilters\<close>; its code is Django's and
  not part of the repository. The model follows the library function of the Django
  releases the module is written for, step by step:
  \<^item> \<open>unicodedata.normalize('NFKD', value).encode('ascii', 'ignore')\<close> is \<open>to_ascii\<close>;
  \<^item> \<open>re.sub('[^\w\s-]', '', value)\<close> is \<open>delete_other\<close>: a character that is no letter,
    digit, underscore, white space or hyphen is deleted;
  \<^item> \<open>.strip()\<close> is \<open>strip\<close>: white space at both ends is removed;
  \<^item> \<open>.lower()\<close> is \<open>map lower\<close>;
  \<^item> \<open>re.sub('[-\s]+', '-', value)\<close> is \<open>squeeze\<close>: every maximal run of hyphens and
    white space becomes one hyphen.

  The first step is exact on ASCII strings, which it leaves as they are. On a character
  outside ASCII the model drops it; Django does so when the character has no ASCII
  decomposition and otherwise puts the decomposition in its place (an accented letter
  becomes the letter). The steps after the first see an ASCII string in both cases, so
  what is proved below of \<open>slugify\<close> on every string by way of those steps holds of the
  library function too, and what depends on the source's own characters is stated for
  ASCII sources.
\<close>

definition to_ascii :: "string \<Rightarrow> string" where
  "to_ascii s = filter is_ascii s"

definition delete_other :: "string \<Rightarrow> string" where
  "delete_other s = filter (\<lambda>c. is_word c \<or> is_space c \<or> c = CHR ''-'') s"

definition strip :: "string \<Rightarrow> string" where
  "strip s = rev (dropWhile is_space (rev (dropWhile is_space s)))"

definition is_separator :: "char \<Rightarrow> bool" where
  "is_separator c = (c = CHR ''-'' \<or> is_space c)"

fun squeeze :: "string \<Rightarrow> string" where
  "squeeze [] = []"
| "squeeze [c] = [if is_separator c then CHR ''-'' else c]"
| "squeeze (c # d # cs) =
     (if is_separator c \<and> is_separator d then squeeze (d # cs)
      else (if is_separator c then CHR ''-'' else c) # squeeze (d # cs))"

definition slugify :: "string \<Rightarrow> string" where
  "slugify s = squeeze (map lower (strip (delete_other (to_ascii s))))"








subsection \<open>The persistence layer\<close>

text \<open>
  Modelled from the spec: \<open>models.Model.save\<close>, the write path every overridden \<open>save\<close>
  delegates to, is Django's and not part of the repository. A table is the list of stored
  rows with their primary keys. Saving an object without a primary key inserts it under a
  fresh key, which the object receives; saving an object whose key is stored replaces that
  row; saving an object whose key is not stored inserts it under its key. \<open>pre_save\<close> is
  the hook for the fields the layer sets itself (\<open>auto_now\<close>, \<open>auto_now_add\<close>); its flag
  says whether the row is being inserted.
\<close>

type_synonym 'r table = "(int \<times> 'r) list"

definition fresh_pk :: "'r table \<Rightarrow> int" where
  "fresh_pk db = 1 + fold max (map fst db) 0"

definition Model_save ::
  "('r \<Rightarrow> int option) \<Rightarrow> (int \<Rightarrow> 'r \<Rightarrow> 'r) \<Rightarrow> (bool \<Rightarrow> 'r \<Rightarrow> 'r) \<Rightarrow> 'r table \<Rightarrow> 'r \<Rightarrow> 'r table \<times> 'r"
where
  "Model_save get_pk set_pk pre_save db self =
     (case get_pk self of
        None \<Rightarrow>
          (let i = fresh_pk db; r = set_pk i (pre_save True self) in (db @ [(i, r)], r))
      | Some i \<Rightarrow>
          (case map_of db i of
             None \<Rightarrow> (let r = pre_save True self in (db @ [(i, r)], r))
           | Some old \<Rightarrow> (let r = pre_save False self in (AList.update i r db, r))))"

subsection \<open>Contact\<close>

record Contact =
  id_Contact :: "int option"
  first_name :: string
  middle_names :: "string option"
  last_name :: string
  user :: "int option"
  contactID :: "string option"
  email :: "string option"
  website :: "string option"
  address :: "string option"
  comments :: "string option"
  public :: bool

text \<open>
  The declared lengths: \<open>first_name = models.CharField(max_length=25)\<close>,
  \<open>last_name = models.CharField(max_length=25)\<close> and
  \<open>contactID = models.SlugField(max_length=20, blank=True, null=True)\<close>.
\<close>

definition first_name_max_length :: nat where
  "first_name_max_length = 25"

definition last_name_max_length :: nat where
  "last_name_max_length = 25"

definition contactID_max_length :: nat where
  "contactID_max_length = 20"

text \<open>\<open>__unicode__\<close>: \<open>u'%s %s' % (self.first_name, self.last_name)\<close>.\<close>

definition Contact_unicode :: "Contact \<Rightarrow> string" where
  "Contact_unicode self = first_name self @ '' '' @ last_name self"

text \<open>
  \<open>save\<close>: the assignment to \<open>self.contactID\<close>, then \<open>super(Contact, self).save()\<close>.
  The result is the table after the write and the object after the call.
\<close>

definition Contact_save :: "Contact table \<Rightarrow> Contact \<Rightarrow> Contact table \<times> Contact" where
  "Contact_save db self =
     (let self = self\<lparr>contactID := Some (slugify (Contact_unicode self))\<rparr>
      in Model_save id_Contact (\<lambda>i r. r\<lparr>id_Contact := Some i\<rparr>) (\<lambda>add r. r) db self)"

subsection \<open>Reference\<close>

text \<open>
  \<open>PUBLICATION_TYPES\<close>: two named groups of (stored value, label) pairs. The stored values
  are the enumerated set of the \<open>type\<close> field.
\<close>

definition PUBLICATION_TYPES :: "(string \<times> (string \<times> string) list) list" where
  "PUBLICATION_TYPES =
     [(''Most Common'',
        [(''journal-article'', ''Journal Article''),
         (''book-section'', ''Book Section'')]),
      (''Less Common'',
        [(''bill'', ''Bill''),
         (''book'', ''Book''),
         (''case'', ''Case''),
         (''computer-program'', ''Computer Program''),
         (''conference-proceedings'', ''Conference Proceedings''),
         (''encyclopedia-article'', ''Encyclopedia Article''),
         (''film'', ''Film''),
         (''generic'', ''Generic''),
         (''magazine-article'', ''Magazine Article''),
         (''newspaper-article'', ''Newspaper Article''),
         (''patent'', ''Patent''),
         (''report'', ''Report''),
         (''statute'', ''Statute''),
         (''television-broadcast'', ''Television Broadcast''),
         (''web-page'', ''Web Page'')])]"

definition publication_type_values :: "string list" where
  "publication_type_values = concat (map (\<lambda>(group, members). map fst members) PUBLICATION_TYPES)"

record Reference =
  id_Reference :: "int option"
  mendeley_url :: "string option"
  title :: string
  authors :: "int list"
  title_slug :: "string option"
  mendeley_id :: "int option"
  doi :: "string option"
  pmid :: "int option"
  pmcid :: "int option"
  journal :: "string option"
  year :: "int option"
  volume :: "string option"
  issue :: "string option"
  pages :: "string option"
  abstract :: "string option"
  type_Reference :: "string option"
  laboratory_paper :: bool
  interesting_paper :: bool
  date_last_modified :: "date option"
  date_added :: "date option"

text \<open>\<open>type = models.CharField(choices = PUBLICATION_TYPES, max_length=20, ...)\<close>.\<close>

definition type_max_length :: nat where
  "type_max_length = 20"

text \<open>\<open>doi_link\<close>: \<open>'http://dx.doi.org/%s' % self.doi\<close>.\<close>

definition doi_link :: "Reference \<Rightarrow> string" where
  "doi_link self = ''http://dx.doi.org/'' @ format_str (doi self)"

text \<open>\<open>full_pmcid\<close>: \<open>'PMC%s' % self.pmcid\<close>.\<close>

definition full_pmcid :: "Reference \<Rightarrow> string" where
  "full_pmcid self = ''PMC'' @ format_int (pmcid self)"

definition Reference_unicode :: "Reference \<Rightarrow> string" where
  "Reference_unicode self = title self"

text \<open>
  The fields of Reference that the persistence layer sets itself:
  \<open>date_last_modified = models.DateField(auto_now=True)\<close> on every save,
  \<open>date_added = models.DateField(auto_now_add=True)\<close> when the row is inserted.
\<close>

definition Reference_pre_save :: "date \<Rightarrow> bool \<Rightarrow> Reference \<Rightarrow> Reference" where
  "Reference_pre_save today add r =
     r\<lparr>date_last_modified := Some today,
       date_added := (if add then Some today else date_added r)\<rparr>"

text \<open>
  \<open>save\<close>: \<open>if not self.id\<close> holds for an id that is \<open>None\<close> and for the id \<open>0\<close>; then
  \<open>super(Reference, self).save(*args, **kwargs)\<close>. \<open>today\<close> is the date of the call.
\<close>

definition Reference_save :: "date \<Rightarrow> Reference table \<Rightarrow> Reference \<Rightarrow> Reference table \<times> Reference" where
  "Reference_save today db self =
     (let self =
        (if id_Reference self = None \<or> id_Reference self = Some 0
         then self\<lparr>title_slug := Some (slugify (title self))\<rparr>
         else self)
      in Model_save id_Reference (\<lambda>i r. r\<lparr>id_Reference := Some i\<rparr>)
           (Reference_pre_save today) db self)"

text \<open>
  The later life of a stored record: it is retitled and saved again, any number of times,
  each time with a new title and at a later date.
\<close>

fun Reference_resave ::
  "(string \<times> date) list \<Rightarrow> Reference table \<Rightarrow> Reference \<Rightarrow> Reference table \<times> Reference"
where
  "Reference_resave [] db self = (db, self)"
| "Reference_resave ((t, d) # edits) db self =
     (case Reference_save d db (self\<lparr>title := t\<rparr>) of
        (db', self') \<Rightarrow> Reference_resave edits db' self')"

subsection \<open>AuthorDetails\<close>

record AuthorDetails =
  id_AuthorDetails :: "int option"
  author :: int
  order :: int
  corresponding_author :: bool
  equal_contributors :: bool

subsection \<open>Vendor\<close>

record Vendor =
  id_Vendor :: "int option"
  company :: string
  company_slug :: string

text \<open>\<open>__unicode__\<close>: \<open>u'%s' % self.company\<close>.\<close>

definition Vendor_unicode :: "Vendor \<Rightarrow> string" where
  "Vendor_unicode self = company self"

definition Vendor_save :: "Vendor table \<Rightarrow> Vendor \<Rightarrow> Vendor table \<times> Vendor" where
  "Vendor_save db self =
     (let self = self\<lparr>company_slug := slugify (Vendor_unicode self)\<rparr>
      in Model_save id_Vendor (\<lambda>i r. r\<lparr>id_Vendor := Some i\<rparr>) (\<lambda>add r. r) db self)"

subsection \<open>Field validation\<close>

text \<open>
  Modelled from the spec: the validation of a field's value is done by the persistence
  layer, which is not part of the repository. The spec (sections 4.3, 6 and 7) gives the
  \<open>type\<close> field as an optional enumerated string of at most 20 characters, one of the fixed
  publication-type set, and the failures as required-field-missing, max-length-exceeded,
  type-mismatch and enumerated-value-not-in-set. An absent value passes; a present value
  is checked against the declared \<open>max_length\<close> and the declared \<open>choices\<close>, and every
  failure is reported.
\<close>

datatype validation_error =
  RequiredFieldMissing | MaxLengthExceeded | TypeMismatch | EnumeratedValueNotInSet

definition validate_type :: "string option \<Rightarrow> validation_error list" where
  "validate_type v =
     (case v of
        None \<Rightarrow> []
      | Some s \<Rightarrow>
          (if length s \<le> type_max_length then [] else [MaxLengthExceeded]) @
          (if s \<in> set publication_type_values then [] else [EnumeratedValueNotInSet]))"

subsection \<open>Listing queries\<close>

text \<open>
  Modelled from the spec: the query that lists a model's rows is run by the persistence
  layer; the repository declares only the ordering, \<open>ordering = ['last_name',]\<close> in
  \<open>Contact.Meta\<close> and \<open>ordering = ['company',]\<close> in \<open>Vendor.Meta\<close>. A listing is the stored
  rows sorted ascending by the declared field, strings compared lexicographically by
  character code.
\<close>

definition Contact_listing :: "Contact table \<Rightarrow> Contact list" where
  "Contact_listing db = sort_key last_name (map snd db)"

definition Vendor_listing :: "Vendor table \<Rightarrow> Vendor list" where
  "Vendor_listing db = sort_key company (map snd db)"

subsection \<open>Example records\<close>

definition cell_biology :: Reference where
  "cell_biology =
     \<lparr>id_Reference = None, mendeley_url = None, title = ''Cell Biology 101'', authors = [],
      title_slug = None, mendeley_id = None, doi = Some ''10.1/xyz'', pmid = None,
      pmcid = Some 12345, journal = None, year = None, volume = None, issue = None,
      pages = None, abstract = None, type_Reference = Some ''journal-article'',
      laboratory_paper = True, interesting_paper = False, date_last_modified = None,
      date_added = None\<rparr>"

definition featherstonehaugh :: Contact where
  "featherstonehaugh =
     \<lparr>id_Contact = None, first_name = ''Bartholomew'', middle_names = None,
      last_name = ''Featherstonehaugh'', user = None, contactID = None, email = None,
      website = None, address = None, comments = None, public = True\<rparr>"

definition curie :: Contact where
  "curie =
     \<lparr>id_Contact = Some 1, first_name = ''Marie'', middle_names = None,
      last_name = ''Curie'', user = None, contactID = Some ''marie-curie'', email = None,
      website = None, address = None, comments = None, public = True\<rparr>"

definition sigma :: Vendor where
  "sigma = \<lparr>id_Vendor = None, company = ''Sigma-Aldrich Co.'', company_slug = ''''\<rparr>"

definition fisher :: Vendor where
  "fisher = \<lparr>id_Vendor = Some 1, company = ''Fisher Scientific'', company_slug = ''fisher-scientific''\<rparr>"

section \<open>The persistence layer stores what it is given\<close>

lemma fold_max_ge: "(a::int) \<le> fold max xs a"
  by (induction xs arbitrary: a) (auto intro: order_trans [OF max.cobounded2])

lemma fold_max_mem: "x \<in> set xs \<Longrightarrow> (x::int) \<le> fold max xs a"
proof (induction xs arbitrary: a)
  case Nil
  then show ?case by simp
next
  case (Cons y ys)
  show ?case
  proof (cases "x = y")
    case True
    have "y \<le> max y a" by simp
    also have "\<dots> \<le> fold max ys (max y a)" by (rule fold_max_ge)
    finally show ?thesis using True by simp
  next
    case False
    with Cons.prems have "x \<in> set ys" by simp
    then show ?thesis using Cons.IH by simp
  qed
qed

lemma fresh_pk_positive: "0 < fresh_pk db"
  using fold_max_ge [of 0 "map fst db"] by (simp add: fresh_pk_def)

lemma fresh_pk_unused: "map_of db (fresh_pk db) = None"
proof -
  have "fresh_pk db \<notin> fst ` set db"
  proof
    assume "fresh_pk db \<in> fst ` set db"
    then have "fresh_pk db \<in> set (map fst db)" by simp
    then have "fresh_pk db \<le> fold max (map fst db) 0" by (rule fold_max_mem)
    then show False by (simp add: fresh_pk_def)
  qed
  then show ?thesis by (simp add: map_of_eq_None_iff)
qed

lemma fresh_pk_keys: "map fst db2 = map fst db \<Longrightarrow> fresh_pk db2 = fresh_pk db"
  by (simp add: fresh_pk_def)

lemma map_of_keys: "map fst db2 = map fst db \<Longrightarrow> (map_of db2 k = None) = (map_of db k = None)"
  by (metis map_of_eq_None_iff set_map)

lemma Model_save_object:
  "snd (Model_save get_pk set_pk pre_save db self) =
     (case get_pk self of
        None \<Rightarrow> set_pk (fresh_pk db) (pre_save True self)
      | Some i \<Rightarrow> pre_save (map_of db i = None) self)"
  by (simp add: Model_save_def Let_def split: option.splits)

lemma Model_save_stored:
  assumes "\<And>i r. get_pk (set_pk i r) = Some i" and "\<And>b r. get_pk (pre_save b r) = get_pk r"
  shows "\<exists>k. get_pk (snd (Model_save get_pk set_pk pre_save db self)) = Some k \<and>
     map_of (fst (Model_save get_pk set_pk pre_save db self)) k =
       Some (snd (Model_save get_pk set_pk pre_save db self))"
  using assms
  by (auto simp: Model_save_def Let_def map_add_def fresh_pk_unused update_conv'
      split: option.splits)

lemma Model_save_others:
  assumes "\<And>i r. get_pk (set_pk i r) = Some i" and "\<And>b r. get_pk (pre_save b r) = get_pk r"
    and "get_pk (snd (Model_save get_pk set_pk pre_save db self)) \<noteq> Some j"
  shows "map_of (fst (Model_save get_pk set_pk pre_save db self)) j = map_of db j"
  using assms
  by (auto simp: Model_save_def Let_def map_add_def update_conv'
      split: option.splits)

lemma Model_save_keys:
  "map fst db2 = map fst db \<Longrightarrow>
   snd (Model_save get_pk set_pk pre_save db2 self) = snd (Model_save get_pk set_pk pre_save db self)"
proof -
  assume keys: "map fst db2 = map fst db"
  have "fresh_pk db2 = fresh_pk db" using keys by (rule fresh_pk_keys)
  moreover have "(map_of db2 k = None) = (map_of db k = None)" for k
    using keys by (rule map_of_keys)
  ultimately show ?thesis by (simp add: Model_save_object split: option.splits)
qed

lemma Contact_save_object:
  "snd (Contact_save db c) =
     (case id_Contact c of
        None \<Rightarrow> c\<lparr>contactID := Some (slugify (Contact_unicode c)), id_Contact := Some (fresh_pk db)\<rparr>
      | Some i \<Rightarrow> c\<lparr>contactID := Some (slugify (Contact_unicode c))\<rparr>)"
  by (simp add: Contact_save_def Let_def Model_save_object split: option.splits)

lemma Contact_save_stored:
  "\<exists>k. id_Contact (snd (Contact_save db c)) = Some k \<and>
     map_of (fst (Contact_save db c)) k = Some (snd (Contact_save db c))"
  unfolding Contact_save_def Let_def by (rule Model_save_stored) simp_all

lemma Reference_save_new:
  "id_Reference r = None \<Longrightarrow>
   snd (Reference_save d db r) =
     r\<lparr>title_slug := Some (slugify (title r)), date_last_modified := Some d,
       date_added := Some d, id_Reference := Some (fresh_pk db)\<rparr>"
  by (simp add: Reference_save_def Let_def Model_save_object Reference_pre_save_def)

lemma Reference_save_existing:
  "id_Reference r = Some i \<Longrightarrow> i \<noteq> 0 \<Longrightarrow>
   snd (Reference_save d db r) =
     r\<lparr>date_last_modified := Some d,
       date_added := (if map_of db i = None then Some d else date_added r)\<rparr>"
  by (simp add: Reference_save_def Let_def Model_save_object Reference_pre_save_def)

lemma Reference_save_stored:
  "\<exists>k. id_Reference (snd (Reference_save d db r)) = Some k \<and>
     map_of (fst (Reference_save d db r)) k = Some (snd (Reference_save d db r))"
  unfolding Reference_save_def Let_def
  by (rule Model_save_stored) (simp_all add: Reference_pre_save_def)

lemma Reference_resave_title_slug:
  "id_Reference r = Some i \<Longrightarrow> i \<noteq> 0 \<Longrightarrow>
   title_slug (snd (Reference_resave edits db r)) = title_slug r \<and>
   id_Reference (snd (Reference_resave edits db r)) = Some i"
proof (induction edits arbitrary: db r)
  case Nil
  then show ?case by simp
next
  case (Cons e edits)
  obtain t d where e: "e = (t, d)" by (cases e)
  let ?r = "snd (Reference_save d db (r\<lparr>title := t\<rparr>))"
  let ?db = "fst (Reference_save d db (r\<lparr>title := t\<rparr>))"
  have step: "?r = r\<lparr>title := t, date_last_modified := Some d,
       date_added := (if map_of db i = None then Some d else date_added r)\<rparr>"
    using Cons.prems by (simp add: Reference_save_existing)
  then have "id_Reference ?r = Some i" and "title_slug ?r = title_slug r"
    using Cons.prems by simp_all
  with Cons.IH [of ?r ?db] Cons.prems e show ?case
    by (simp add: case_prod_beta)
qed

lemma Vendor_save_object:
  "snd (Vendor_save db v) =
     (case id_Vendor v of
        None \<Rightarrow> v\<lparr>company_slug := slugify (company v), id_Vendor := Some (fresh_pk db)\<rparr>
      | Some i \<Rightarrow> v\<lparr>company_slug := slugify (company v)\<rparr>)"
  by (simp add: Vendor_save_def Let_def Model_save_object Vendor_unicode_def split: option.splits)

lemma Vendor_save_stored:
  "\<exists>k. id_Vendor (snd (Vendor_save db v)) = Some k \<and>
     map_of (fst (Vendor_save db v)) k = Some (snd (Vendor_save db v))"
  unfolding Vendor_save_def Let_def by (rule Model_save_stored) simp_all

lemma Contact_save_others:
  "id_Contact (snd (Contact_save db c)) \<noteq> Some j \<Longrightarrow> map_of (fst (Contact_save db c)) j = map_of db j"
  unfolding Contact_save_def Let_def by (rule Model_save_others) simp_all

lemma Vendor_save_others:
  "id_Vendor (snd (Vendor_save db v)) \<noteq> Some j \<Longrightarrow> map_of (fst (Vendor_save db v)) j = map_of db j"
  unfolding Vendor_save_def Let_def by (rule Model_save_others) simp_all

lemma Reference_save_others:
  "id_Reference (snd (Reference_save d db r)) \<noteq> Some j \<Longrightarrow>
   map_of (fst (Reference_save d db r)) j = map_of db j"
  unfolding Reference_save_def Let_def
  by (rule Model_save_others) (simp_all add: Reference_pre_save_def)

lemma Contact_save_keys:
  "map fst db2 = map fst db \<Longrightarrow> snd (Contact_save db2 c) = snd (Contact_save db c)"
  unfolding Contact_save_def Let_def by (rule Model_save_keys)

lemma Vendor_save_keys:
  "map fst db2 = map fst db \<Longrightarrow> snd (Vendor_save db2 v) = snd (Vendor_save db v)"
  unfolding Vendor_save_def Let_def by (rule Model_save_keys)

lemma Reference_save_keys:
  "map fst db2 = map fst db \<Longrightarrow> snd (Reference_save d db2 r) = snd (Reference_save d db r)"
  unfolding Reference_save_def Let_def by (rule Model_save_keys)

lemma Contact_save_fields:
  "(snd (Contact_save db c))\<lparr>contactID := contactID c, id_Contact := id_Contact c\<rparr> = c"
  by (simp add: Contact_save_object split: option.splits)

lemma Vendor_save_fields:
  "(snd (Vendor_save db v))\<lparr>company_slug := company_slug v, id_Vendor := id_Vendor v\<rparr> = v"
  by (simp add: Vendor_save_object split: option.splits)

lemma Reference_save_object:
  "snd (Reference_save d db r) =
     (case id_Reference r of
        None \<Rightarrow> r\<lparr>title_slug := Some (slugify (title r)), date_last_modified := Some d,
                    date_added := Some d, id_Reference := Some (fresh_pk db)\<rparr>
      | Some i \<Rightarrow>
          r\<lparr>title_slug := (if i = 0 then Some (slugify (title r)) else title_slug r),
            date_last_modified := Some d,
            date_added := (if map_of db i = None then Some d else date_added r)\<rparr>)"
  by (simp add: Reference_save_def Let_def Model_save_object Reference_pre_save_def
      split: option.splits)

lemma Reference_save_fields:
  "(snd (Reference_save d db r))\<lparr>title_slug := title_slug r, id_Reference := id_Reference r,
      date_last_modified := date_last_modified r, date_added := date_added r\<rparr> = r"
  by (simp add: Reference_save_object split: option.splits)

section \<open>Slug derivation on save\<close>

text \<open>
  C1: every call to \<open>Contact.save\<close> sets \<open>contactID\<close> to the slug of the first name, a
  space and the last name, whatever the names are (valid ones in particular) and whatever
  \<open>contactID\<close> held before. The row the persistence layer stores carries that slug. Saving
  again after \<open>contactID\<close> was set by hand to any value \<open>x\<close> restores the slug.
\<close>

theorem Contact_save_contactID:
  "contactID (snd (Contact_save db c)) = Some (slugify (first_name c @ '' '' @ last_name c)) \<and>
   (\<exists>k. id_Contact (snd (Contact_save db c)) = Some k \<and>
      map_option contactID (map_of (fst (Contact_save db c)) k) =
        Some (Some (slugify (first_name c @ '' '' @ last_name c)))) \<and>
   (case Contact_save db c of (db1, c1) \<Rightarrow>
      contactID (snd (Contact_save db1 (c1\<lparr>contactID := x\<rparr>))) =
        Some (slugify (first_name c @ '' '' @ last_name c)))"
proof -
  let ?s = "slugify (first_name c @ '' '' @ last_name c)"
  have slug: "contactID (snd (Contact_save d a)) = Some (slugify (first_name a @ '' '' @ last_name a))"
    for d a
    by (simp add: Contact_save_object Contact_unicode_def split: option.splits)
  have names: "first_name (snd (Contact_save db c)) = first_name c \<and>
      last_name (snd (Contact_save db c)) = last_name c"
    by (simp add: Contact_save_object split: option.splits)
  obtain k where k: "id_Contact (snd (Contact_save db c)) = Some k"
    "map_of (fst (Contact_save db c)) k = Some (snd (Contact_save db c))"
    using Contact_save_stored by blast
  have "map_option contactID (map_of (fst (Contact_save db c)) k) = Some (Some ?s)"
    using k(2) slug by simp
  moreover have "contactID (snd (Contact_save (fst (Contact_save db c))
      ((snd (Contact_save db c))\<lparr>contactID := x\<rparr>))) = Some ?s"
    using names by (simp add: slug)
  ultimately show ?thesis using slug k(1) by (simp add: case_prod_beta)
qed

text \<open>
  C2: a Reference without an identity gets \<open>title_slug = slugify(title)\<close> on its first
  save, together with an identity from the persistence layer. From then on any save of an
  object with that identity leaves \<open>title_slug\<close> as it is, however often the record is
  retitled and saved. A record titled Cell Biology 101 gets the slug cell-biology-101 and
  keeps it when retitled Cell Biology 202 and saved again. (The test \<open>not self.id\<close> also
  holds for the id 0, which the persistence layer never assigns.)
\<close>

theorem Reference_save_title_slug_once:
  assumes "id_Reference r = None"
  shows "case Reference_save d db r of (db1, r1) \<Rightarrow>
     title_slug r1 = Some (slugify (title r)) \<and>
     (\<forall>edits. title_slug (snd (Reference_resave edits db1 r1)) = Some (slugify (title r))) \<and>
     (\<forall>d' db' r'. id_Reference r' = id_Reference r1 \<longrightarrow>
        title_slug (snd (Reference_save d' db' r')) = title_slug r' \<and>
        id_Reference (snd (Reference_save d' db' r')) = id_Reference r') \<and>
     (title r = ''Cell Biology 101'' \<longrightarrow>
        title_slug r1 = Some ''cell-biology-101'' \<and>
        title_slug (snd (Reference_save e db1 (r1\<lparr>title := ''Cell Biology 202''\<rparr>))) =
          Some ''cell-biology-101'')"
proof -
  let ?r1 = "snd (Reference_save d db r)"
  let ?db1 = "fst (Reference_save d db r)"
  have r1: "?r1 = r\<lparr>title_slug := Some (slugify (title r)), date_last_modified := Some d,
       date_added := Some d, id_Reference := Some (fresh_pk db)\<rparr>"
    using assms by (rule Reference_save_new)
  have pk: "id_Reference ?r1 = Some (fresh_pk db)" and nz: "fresh_pk db \<noteq> 0"
    using r1 fresh_pk_positive [of db] by simp_all
  have slug: "title_slug ?r1 = Some (slugify (title r))"
    using r1 by simp
  have again: "title_slug (snd (Reference_resave edits ?db1 ?r1)) = Some (slugify (title r))"
    for edits
    using Reference_resave_title_slug [OF pk nz, of edits ?db1] slug by simp
  have later: "title_slug (snd (Reference_save d' db' r')) = title_slug r' \<and>
      id_Reference (snd (Reference_save d' db' r')) = id_Reference r'"
    if "id_Reference r' = id_Reference ?r1" for d' db' r'
  proof -
    from that pk have "id_Reference r' = Some (fresh_pk db)" by simp
    then show ?thesis using nz by (simp add: Reference_save_existing)
  qed
  have example: "slugify ''Cell Biology 101'' = ''cell-biology-101''"
    by code_simp
  have retitled: "title_slug (snd (Reference_save e ?db1 (?r1\<lparr>title := t\<rparr>))) =
      Some (slugify (title r))" for t
    using later [of "?r1\<lparr>title := t\<rparr>" e ?db1] slug by simp
  show ?thesis
    using slug again later retitled example by (simp add: case_prod_beta)
qed

theorem Reference_save_title_slug_once_witness:
  "id_Reference cell_biology = None \<and>
   (case Reference_save 1 [] cell_biology of (db1, r1) \<Rightarrow>
      title_slug r1 = Some ''cell-biology-101'' \<and>
      title_slug (snd (Reference_save 2 db1 (r1\<lparr>title := ''Cell Biology 202''\<rparr>))) =
        Some ''cell-biology-101'' \<and>
      title_slug (snd (Reference_resave [(''Cell Biology 202'', 2), (''Cell Biology 303'', 3)]
        db1 r1)) = Some ''cell-biology-101'')"
proof -
  have new: "id_Reference cell_biology = None"
    by (simp add: cell_biology_def)
  have t: "title cell_biology = ''Cell Biology 101''"
    by (simp add: cell_biology_def)
  have eq: "slugify (title cell_biology) = ''cell-biology-101''"
    unfolding t by code_simp
  show ?thesis
    using new t eq Reference_save_title_slug_once [OF new, where d = 1 and db = "[]" and e = 2]
    by (simp add: case_prod_beta)
qed

text \<open>
  C3: every call to \<open>Vendor.save\<close> sets \<open>company_slug\<close> to the slug of the company name,
  whatever the name is and whatever \<open>company_slug\<close> held before. The row the persistence layer
  stores carries that slug, and saving again after \<open>company_slug\<close> was set to any value
  \<open>x\<close> restores it.
\<close>

theorem Vendor_save_company_slug:
  "company_slug (snd (Vendor_save db v)) = slugify (company v) \<and>
   (\<exists>k. id_Vendor (snd (Vendor_save db v)) = Some k \<and>
      map_option company_slug (map_of (fst (Vendor_save db v)) k) = Some (slugify (company v))) \<and>
   (case Vendor_save db v of (db1, v1) \<Rightarrow>
      company_slug (snd (Vendor_save db1 (v1\<lparr>company_slug := x\<rparr>))) = slugify (company v))"
proof -
  have slug: "company_slug (snd (Vendor_save d a)) = slugify (company a)" for d a
    by (simp add: Vendor_save_object split: option.splits)
  have name: "company (snd (Vendor_save db v)) = company v"
    by (simp add: Vendor_save_object split: option.splits)
  obtain k where k: "id_Vendor (snd (Vendor_save db v)) = Some k"
    "map_of (fst (Vendor_save db v)) k = Some (snd (Vendor_save db v))"
    using Vendor_save_stored by blast
  have "map_option company_slug (map_of (fst (Vendor_save db v)) k) = Some (slugify (company v))"
    using k(2) slug by simp
  moreover have "company_slug (snd (Vendor_save (fst (Vendor_save db v))
      ((snd (Vendor_save db v))\<lparr>company_slug := x\<rparr>))) = slugify (company v)"
    using name by (simp add: slug)
  ultimately show ?thesis using slug k(1) by (simp add: case_prod_beta)
qed

text \<open>
  C7: there is a Contact whose names are not empty and within their 25 characters, and
  whose save, on any table, leaves a \<open>contactID\<close> of more than the 20 characters the field
  declares, in the object and in the stored row: Bartholomew Featherstonehaugh gets the 29
  characters bartholomew-featherstonehaugh. \<open>Contact.save\<close> stores the slug as computed.
\<close>

theorem contactID_exceeds_max_length:
  "(\<exists>c. first_name c \<noteq> [] \<and> length (first_name c) \<le> first_name_max_length \<and>
        last_name c \<noteq> [] \<and> length (last_name c) \<le> last_name_max_length \<and>
        (\<forall>db. \<exists>s k. contactID (snd (Contact_save db c)) = Some s \<and>
           contactID_max_length < length s \<and>
           id_Contact (snd (Contact_save db c)) = Some k \<and>
           map_option contactID (map_of (fst (Contact_save db c)) k) = Some (Some s))) \<and>
   contactID (snd (Contact_save db featherstonehaugh)) = Some ''bartholomew-featherstonehaugh''"
proof -
  let ?c = featherstonehaugh
  have slug: "slugify (Contact_unicode ?c) = ''bartholomew-featherstonehaugh''"
    by code_simp
  have saved: "contactID (snd (Contact_save d ?c)) = Some ''bartholomew-featherstonehaugh''" for d
    using slug by (simp add: Contact_save_object split: option.splits)
  have stored: "\<exists>s k. contactID (snd (Contact_save d ?c)) = Some s \<and>
      contactID_max_length < length s \<and> id_Contact (snd (Contact_save d ?c)) = Some k \<and>
      map_option contactID (map_of (fst (Contact_save d ?c)) k) = Some (Some s)" for d
  proof -
    obtain k where k: "id_Contact (snd (Contact_save d ?c)) = Some k"
      "map_of (fst (Contact_save d ?c)) k = Some (snd (Contact_save d ?c))"
      using Contact_save_stored by blast
    show ?thesis
      using k saved [of d] by (simp add: contactID_max_length_def)
  qed
  have names: "first_name ?c \<noteq> [] \<and> length (first_name ?c) \<le> first_name_max_length \<and>
      last_name ?c \<noteq> [] \<and> length (last_name ?c) \<le> last_name_max_length"
    by (simp add: featherstonehaugh_def first_name_max_length_def last_name_max_length_def)
  from names stored have "\<exists>c. first_name c \<noteq> [] \<and> length (first_name c) \<le> first_name_max_length \<and>
        last_name c \<noteq> [] \<and> length (last_name c) \<le> last_name_max_length \<and>
        (\<forall>db. \<exists>s k. contactID (snd (Contact_save db c)) = Some s \<and>
           contactID_max_length < length s \<and>
           id_Contact (snd (Contact_save db c)) = Some k \<and>
           map_option contactID (map_of (fst (Contact_save db c)) k) = Some (Some s))"
    by (intro exI [of _ ?c]) blast
  with saved show ?thesis by blast
qed

section \<open>The shape of a slug\<close>














































section \<open>What a save leaves alone\<close>

text \<open>
  C6: each overridden \<open>save\<close> is the persistence layer's save of the object with only its
  slug field replaced. The object after the call equals the object before it in every
  field but the slug and the fields the persistence layer sets (the identity; for a
  Reference also the two dates). Every stored row under another key is as it was, and the
  object after the call does not depend on what the other rows hold.
\<close>

theorem save_frame:
  "(case Contact_save cdb c of (cdb', c') \<Rightarrow>
      c'\<lparr>contactID := contactID c, id_Contact := id_Contact c\<rparr> = c \<and>
      (\<forall>j. id_Contact c' \<noteq> Some j \<longrightarrow> map_of cdb' j = map_of cdb j) \<and>
      (\<forall>db2. map fst db2 = map fst cdb \<longrightarrow> snd (Contact_save db2 c) = c')) \<and>
   Contact_save cdb c =
     Model_save id_Contact (\<lambda>i r. r\<lparr>id_Contact := Some i\<rparr>) (\<lambda>add r. r) cdb
       (c\<lparr>contactID := contactID (snd (Contact_save cdb c))\<rparr>) \<and>
   (case Vendor_save vdb v of (vdb', v') \<Rightarrow>
      v'\<lparr>company_slug := company_slug v, id_Vendor := id_Vendor v\<rparr> = v \<and>
      (\<forall>j. id_Vendor v' \<noteq> Some j \<longrightarrow> map_of vdb' j = map_of vdb j) \<and>
      (\<forall>db2. map fst db2 = map fst vdb \<longrightarrow> snd (Vendor_save db2 v) = v')) \<and>
   Vendor_save vdb v =
     Model_save id_Vendor (\<lambda>i r. r\<lparr>id_Vendor := Some i\<rparr>) (\<lambda>add r. r) vdb
       (v\<lparr>company_slug := company_slug (snd (Vendor_save vdb v))\<rparr>) \<and>
   (case Reference_save d rdb r of (rdb', r') \<Rightarrow>
      r'\<lparr>title_slug := title_slug r, id_Reference := id_Reference r,
         date_last_modified := date_last_modified r, date_added := date_added r\<rparr> = r \<and>
      (\<forall>j. id_Reference r' \<noteq> Some j \<longrightarrow> map_of rdb' j = map_of rdb j) \<and>
      (\<forall>db2. map fst db2 = map fst rdb \<longrightarrow> snd (Reference_save d db2 r) = r')) \<and>
   Reference_save d rdb r =
     Model_save id_Reference (\<lambda>i r. r\<lparr>id_Reference := Some i\<rparr>) (Reference_pre_save d) rdb
       (r\<lparr>title_slug := title_slug (snd (Reference_save d rdb r))\<rparr>)"
proof -
  have contact: "case Contact_save cdb c of (cdb', c') \<Rightarrow>
      c'\<lparr>contactID := contactID c, id_Contact := id_Contact c\<rparr> = c \<and>
      (\<forall>j. id_Contact c' \<noteq> Some j \<longrightarrow> map_of cdb' j = map_of cdb j) \<and>
      (\<forall>db2. map fst db2 = map fst cdb \<longrightarrow> snd (Contact_save db2 c) = c')"
    unfolding case_prod_beta
    by (intro conjI allI impI Contact_save_fields Contact_save_others Contact_save_keys)
  have contact_delegate: "Contact_save cdb c =
     Model_save id_Contact (\<lambda>i r. r\<lparr>id_Contact := Some i\<rparr>) (\<lambda>add r. r) cdb
       (c\<lparr>contactID := contactID (snd (Contact_save cdb c))\<rparr>)"
    by (simp add: Contact_save_object split: option.splits) (simp add: Contact_save_def)
  have vendor: "case Vendor_save vdb v of (vdb', v') \<Rightarrow>
      v'\<lparr>company_slug := company_slug v, id_Vendor := id_Vendor v\<rparr> = v \<and>
      (\<forall>j. id_Vendor v' \<noteq> Some j \<longrightarrow> map_of vdb' j = map_of vdb j) \<and>
      (\<forall>db2. map fst db2 = map fst vdb \<longrightarrow> snd (Vendor_save db2 v) = v')"
    unfolding case_prod_beta
    by (intro conjI allI impI Vendor_save_fields Vendor_save_others Vendor_save_keys)
  have vendor_delegate: "Vendor_save vdb v =
     Model_save id_Vendor (\<lambda>i r. r\<lparr>id_Vendor := Some i\<rparr>) (\<lambda>add r. r) vdb
       (v\<lparr>company_slug := company_slug (snd (Vendor_save vdb v))\<rparr>)"
    by (simp add: Vendor_save_object split: option.splits)
      (simp add: Vendor_save_def Vendor_unicode_def)
  have reference: "case Reference_save d rdb r of (rdb', r') \<Rightarrow>
      r'\<lparr>title_slug := title_slug r, id_Reference := id_Reference r,
         date_last_modified := date_last_modified r, date_added := date_added r\<rparr> = r \<and>
      (\<forall>j. id_Reference r' \<noteq> Some j \<longrightarrow> map_of rdb' j = map_of rdb j) \<and>
      (\<forall>db2. map fst db2 = map fst rdb \<longrightarrow> snd (Reference_save d db2 r) = r')"
    unfolding case_prod_beta
    by (intro conjI allI impI Reference_save_fields Reference_save_others Reference_save_keys)
  have reference_delegate: "Reference_save d rdb r =
     Model_save id_Reference (\<lambda>i r. r\<lparr>id_Reference := Some i\<rparr>) (Reference_pre_save d) rdb
       (r\<lparr>title_slug := title_slug (snd (Reference_save d rdb r))\<rparr>)"
    by (simp add: Reference_save_object split: option.splits) (auto simp add: Reference_save_def)
  show ?thesis
    using contact contact_delegate vendor vendor_delegate reference reference_delegate
    by (intro conjI)
qed

theorem save_frame_witness:
  "(case Contact_save [(1, curie)] featherstonehaugh of (db', c') \<Rightarrow>
      map_of db' 1 = Some curie \<and>
      c'\<lparr>contactID := None, id_Contact := None\<rparr> = featherstonehaugh) \<and>
   (case Vendor_save [(1, fisher)] sigma of (db', v') \<Rightarrow>
      map_of db' 1 = Some fisher \<and>
      v'\<lparr>company_slug := [], id_Vendor := None\<rparr> = sigma) \<and>
   (case Reference_save 7 [(3, cell_biology)] cell_biology of (db', r') \<Rightarrow>
      map_of db' 3 = Some cell_biology \<and>
      r'\<lparr>title_slug := None, id_Reference := None, date_last_modified := None,
         date_added := None\<rparr> = cell_biology)"
proof -
  note frame = save_frame [where cdb = "[(1, curie)]" and c = featherstonehaugh
      and vdb = "[(1, fisher)]" and v = sigma
      and d = 7 and rdb = "[(3, cell_biology)]" and r = cell_biology, unfolded case_prod_beta]
  let ?c = "Contact_save [(1, curie)] featherstonehaugh"
  let ?v = "Vendor_save [(1, fisher)] sigma"
  let ?r = "Reference_save 7 [(3, cell_biology)] cell_biology"
  have c_pk: "id_Contact (snd ?c) \<noteq> Some 1"
    by (simp add: Contact_save_object featherstonehaugh_def fresh_pk_def)
  have v_pk: "id_Vendor (snd ?v) \<noteq> Some 1"
    by (simp add: Vendor_save_object sigma_def fresh_pk_def)
  have r_pk: "id_Reference (snd ?r) \<noteq> Some 3"
    by (simp add: Reference_save_object cell_biology_def fresh_pk_def)
  note contact = frame [THEN conjunct1]
  note vendor = frame [THEN conjunct2, THEN conjunct2, THEN conjunct1]
  note reference = frame [THEN conjunct2, THEN conjunct2, THEN conjunct2, THEN conjunct2,
      THEN conjunct1]
  have c_rows: "\<forall>j. id_Contact (snd ?c) \<noteq> Some j \<longrightarrow> map_of (fst ?c) j = map_of [(1, curie)] j"
    by (rule contact [THEN conjunct2, THEN conjunct1])
  have v_rows: "\<forall>j. id_Vendor (snd ?v) \<noteq> Some j \<longrightarrow> map_of (fst ?v) j = map_of [(1, fisher)] j"
    by (rule vendor [THEN conjunct2, THEN conjunct1])
  have r_rows: "\<forall>j. id_Reference (snd ?r) \<noteq> Some j \<longrightarrow>
      map_of (fst ?r) j = map_of [(3, cell_biology)] j"
    by (rule reference [THEN conjunct2, THEN conjunct1])
  have c_other: "map_of (fst ?c) 1 = Some curie"
    using c_rows c_pk by simp
  have v_other: "map_of (fst ?v) 1 = Some fisher"
    using v_rows v_pk by simp
  have r_other: "map_of (fst ?r) 3 = Some cell_biology"
    using r_rows r_pk by simp
  have c_fields: "(snd ?c)\<lparr>contactID := contactID featherstonehaugh,
      id_Contact := id_Contact featherstonehaugh\<rparr> = featherstonehaugh"
    by (rule contact [THEN conjunct1])
  have v_fields: "(snd ?v)\<lparr>company_slug := company_slug sigma,
      id_Vendor := id_Vendor sigma\<rparr> = sigma"
    by (rule vendor [THEN conjunct1])
  have r_fields: "(snd ?r)\<lparr>title_slug := title_slug cell_biology,
      id_Reference := id_Reference cell_biology,
      date_last_modified := date_last_modified cell_biology,
      date_added := date_added cell_biology\<rparr> = cell_biology"
    by (rule reference [THEN conjunct1])
  have old: "contactID featherstonehaugh = None" "id_Contact featherstonehaugh = None"
    "company_slug sigma = []" "id_Vendor sigma = None"
    "title_slug cell_biology = None" "id_Reference cell_biology = None"
    "date_last_modified cell_biology = None" "date_added cell_biology = None"
    by (simp_all add: featherstonehaugh_def sigma_def cell_biology_def)
  show ?thesis
    unfolding case_prod_beta
    using c_other v_other r_other c_fields v_fields r_fields unfolding old by simp
qed

section \<open>Validation of the publication type\<close>

lemma publication_type_values_eq:
  "publication_type_values =
     [''journal-article'', ''book-section'', ''bill'', ''book'', ''case'', ''computer-program'',
      ''conference-proceedings'', ''encyclopedia-article'', ''film'', ''generic'',
      ''magazine-article'', ''newspaper-article'', ''patent'', ''report'', ''statute'',
      ''television-broadcast'', ''web-page'']"
  by (simp add: publication_type_values_def PUBLICATION_TYPES_def)

lemma validate_type_outside:
  "s \<notin> set publication_type_values \<Longrightarrow> EnumeratedValueNotInSet \<in> set (validate_type (Some s))"
  by (simp add: validate_type_def)

lemma validate_type_not_a_real_type:
  "validate_type (Some ''not-a-real-type'') = [EnumeratedValueNotInSet]"
  by (simp add: validate_type_def type_max_length_def publication_type_values_eq)

lemma validate_type_inside:
  assumes "s \<in> set publication_type_values" and "s \<noteq> ''conference-proceedings''"
  shows "validate_type (Some s) = []"
proof -
  have "length s \<le> 20"
    using assms unfolding publication_type_values_eq by auto
  with assms(1) show ?thesis
    by (simp add: validate_type_def type_max_length_def)
qed

text \<open>
  C5: a value outside the enumerated set is reported as not in the set
  (\<open>validate_type_outside\<close>), and every value of the set but one passes
  (\<open>validate_type_inside\<close>). The value conference-proceedings is in the declared set and has
  22 characters, while the field declares \<open>max_length=20\<close>: it fails with
  max-length-exceeded.
\<close>

theorem type_choice_exceeds_max_length:
  "''conference-proceedings'' \<in> set publication_type_values \<and>
   length ''conference-proceedings'' = 22 \<and> type_max_length = 20 \<and>
   validate_type (Some ''conference-proceedings'') = [MaxLengthExceeded]"
  by (simp add: validate_type_def type_max_length_def publication_type_values_eq)

section \<open>Identifier formatting\<close>

text \<open>
  C8: for a Reference whose \<open>doi\<close> holds the string \<open>d\<close>, \<open>doi_link\<close> is the resolver
  base followed by \<open>d\<close> as it is; for the DOI 10.1/xyz it is http://dx.doi.org/10.1/xyz.
\<close>

theorem doi_link_prefix:
  assumes "doi r = Some d"
  shows "doi_link r = ''http://dx.doi.org/'' @ d \<and>
    (d = ''10.1/xyz'' \<longrightarrow> doi_link r = ''http://dx.doi.org/10.1/xyz'')"
  using assms by (simp add: doi_link_def format_str_def)

theorem doi_link_prefix_witness:
  "doi cell_biology = Some ''10.1/xyz'' \<and> doi_link cell_biology = ''http://dx.doi.org/10.1/xyz''"
proof -
  have d: "doi cell_biology = Some ''10.1/xyz''"
    by (simp add: cell_biology_def)
  show ?thesis using d doi_link_prefix [OF d] by simp
qed

text \<open>
  The decimal rendering: \<open>str_int\<close> writes digits only (after the sign), and reading its
  output back as a decimal numeral gives the number.
\<close>

lemma str_nat_digit: "n < 10 \<Longrightarrow> str_nat n = [char_of (48 + n)]"
  by (subst str_nat.simps) simp

lemma str_nat_step: "10 \<le> n \<Longrightarrow> str_nat n = str_nat (n div 10) @ [char_of (48 + n mod 10)]"
  by (subst str_nat.simps) simp

lemma of_char_digit: "k < 10 \<Longrightarrow> (of_char (char_of (48 + k :: nat)) :: nat) = 48 + k"
  by simp

lemma digit_value_digit: "k < 10 \<Longrightarrow> digit_value (char_of (48 + k :: nat)) = k"
  by (simp add: digit_value_def)

lemma is_digit_digit: "k < 10 \<Longrightarrow> is_digit (char_of (48 + k :: nat))"
  by (simp add: is_digit_def)

lemma decimal_nat_snoc: "decimal_nat (s @ [c]) = 10 * decimal_nat s + digit_value c"
  by (simp add: decimal_nat_def)

lemma decimal_nat_str_nat: "decimal_nat (str_nat n) = n"
proof (induction n rule: str_nat.induct)
  case (1 n)
  show ?case
  proof (cases "n < 10")
    case True
    then show ?thesis
      by (subst str_nat.simps) (simp add: decimal_nat_def digit_value_digit)
  next
    case False
    then have "decimal_nat (str_nat n) = 10 * decimal_nat (str_nat (n div 10)) + n mod 10"
      by (subst str_nat.simps) (simp add: decimal_nat_snoc digit_value_digit)
    with 1 False show ?thesis by simp
  qed
qed

lemma str_nat_digits: "str_nat n \<noteq> [] \<and> list_all is_digit (str_nat n)"
proof (induction n rule: str_nat.induct)
  case (1 n)
  show ?case
  proof (cases "n < 10")
    case True
    then show ?thesis
      by (subst (1 2) str_nat.simps) (simp add: is_digit_digit)
  next
    case False
    with 1 show ?thesis
      by (subst (1 2) str_nat.simps) (simp add: is_digit_digit)
  qed
qed

lemma str_nat_no_sign: "\<exists>c cs. str_nat n = c # cs \<and> c \<noteq> CHR ''-''"
proof -
  obtain c cs where s: "str_nat n = c # cs"
    using str_nat_digits [of n] by (cases "str_nat n") auto
  then have "is_digit c" using str_nat_digits [of n] by simp
  then have "c \<noteq> CHR ''-''" by (auto simp: is_digit_def)
  with s show ?thesis by blast
qed

lemma decimal_int_str_int: "decimal_int (str_int n) = n"
proof (cases "n < 0")
  case True
  then show ?thesis
    by (simp add: decimal_int_def str_int_def decimal_nat_str_nat)
next
  case False
  obtain c cs where s: "str_nat (nat n) = c # cs" "c \<noteq> CHR ''-''"
    using str_nat_no_sign by blast
  have "decimal_nat (c # cs) = nat n"
    using decimal_nat_str_nat [of "nat n"] s by simp
  with False s show ?thesis
    by (simp add: decimal_int_def str_int_def)
qed

text \<open>
  C9: for a Reference whose \<open>pmcid\<close> holds the integer \<open>n\<close>, \<open>full_pmcid\<close> is PMC followed
  by the decimal rendering of \<open>n\<close>: a string that reads back as \<open>n\<close> and, for \<open>n\<close> not
  negative, consists of digits. For 12345 it is PMC12345.
\<close>

theorem full_pmcid_prefix:
  assumes "pmcid r = Some n"
  shows "full_pmcid r = ''PMC'' @ str_int n \<and> decimal_int (str_int n) = n \<and>
    (0 \<le> n \<longrightarrow> list_all is_digit (str_int n)) \<and>
    (n = 12345 \<longrightarrow> full_pmcid r = ''PMC12345'')"
proof -
  have full: "full_pmcid r = ''PMC'' @ str_int n"
    using assms by (simp add: full_pmcid_def format_int_def)
  have digits: "list_all is_digit (str_int n)" if "0 \<le> n"
    using that str_nat_digits [of "nat n"] by (simp add: str_int_def)
  have example: "str_int 12345 = ''12345''"
    by (simp add: str_int_def str_nat_digit str_nat_step char_of_eq_iff)
  have concrete: "full_pmcid r = ''PMC12345''" if "n = 12345"
    unfolding full that example by simp
  show ?thesis
  proof (intro conjI impI)
    show "full_pmcid r = ''PMC'' @ str_int n" by (rule full)
    show "decimal_int (str_int n) = n" by (rule decimal_int_str_int)
    show "list_all is_digit (str_int n)" if "0 \<le> n" using that by (rule digits)
    show "full_pmcid r = ''PMC12345''" if "n = 12345" using that by (rule concrete)
  qed
qed

theorem full_pmcid_prefix_witness:
  "pmcid cell_biology = Some 12345 \<and> full_pmcid cell_biology = ''PMC12345''"
proof -
  have n: "pmcid cell_biology = Some 12345"
    by (simp add: cell_biology_def)
  from full_pmcid_prefix [OF n] have "full_pmcid cell_biology = ''PMC12345''"
    by blast
  with n show ?thesis by simp
qed

section \<open>Listing order\<close>

text \<open>
  C10: for every table, the Contact listing holds exactly the stored Contacts, in ascending
  order of \<open>last_name\<close>, and the Vendor listing holds exactly the stored Vendors, in
  ascending order of \<open>company\<close>.
\<close>

theorem listing_sorted:
  "sorted (map last_name (Contact_listing cs)) \<and>
   mset (Contact_listing cs) = mset (map snd cs) \<and>
   sorted (map company (Vendor_listing vs)) \<and>
   mset (Vendor_listing vs) = mset (map snd vs)"
  by (simp add: Contact_listing_def Vendor_listing_def)

end
